theory Spec2Isabelle
  imports Complex_Main "HOL-Library.Multiset"
begin

section \<open>nasa\_apod\_desktop.py: a shallow embedding\<close>

text \<open>
  The script is one Python module: global settings read from \<^verbatim>\<open>apod.config\<close>, nine
  functions and a main block. Each function is translated below under its own name. What
  the script does to the outside (HTTP requests, the file system, the shell, the clock,
  the random generator) is made explicit in a record \<open>world\<close> that every effectful
  function takes and returns; a raised exception or a call of \<^verbatim>\<open>exit()\<close> is the
  \<open>Inl\<close> branch of the result, together with the world as it was when the exception left
  the function.

  Conventions of the model:
  \<^item> a Python \<^verbatim>\<open>str\<close> is a \<open>string\<close> whose characters are code points below 256; on these
    \<^verbatim>\<open>re.IGNORECASE\<close> is ASCII case folding;
  \<^item> the interpreter is Python 3 (the script uses f-strings, \<^verbatim>\<open>tuple[int, int]\<close> and
    \<^verbatim>\<open>Path.with_stem\<close>), and the libraries are what the script imports: the module
    \<^verbatim>\<open>urllib\<close> has the submodules \<^verbatim>\<open>request\<close> and \<^verbatim>\<open>error\<close> but no attribute
    \<^verbatim>\<open>urlopen\<close> or \<^verbatim>\<open>urlretrieve\<close>, a file opened with mode \<^verbatim>\<open>'w'\<close> is a text file,
    and \<^verbatim>\<open>lxml\<close> takes only a \<^verbatim>\<open>str\<close> or \<^verbatim>\<open>bytes\<close> as the text of an element;
  \<^item> a \<^verbatim>\<open>pathlib.Path\<close> is held as the string that \<^verbatim>\<open>str(path)\<close> gives. Where an object
    reaches an operation that tells a \<^verbatim>\<open>str\<close> from a \<^verbatim>\<open>Path\<close>, it is tagged with its
    type (\<open>pyobj\<close> below), and the operation raises what Python raises for that type;
  \<^item> what is printed to standard output is not modelled, so \<^verbatim>\<open>SHOW_DEBUG\<close> only appears
    where it changes control flow.
\<close>

subsection \<open>Exceptions and Python values\<close>

datatype error =
    HTTPError nat
  | URLError
  | ValueError
  | TypeError
  | IndexError
  | OverflowError
  | UnicodeDecodeError
  | FileNotFoundError
  | UnidentifiedImageError
  | SystemExit
  | AttributeError

text \<open>The two kinds of value that \<^verbatim>\<open>res_x\<close> and \<^verbatim>\<open>res_y\<close> hold in \<^verbatim>\<open>find_resolution\<close>.\<close>

datatype pyval = PInt int | PStr string

text \<open>An object that is a \<^verbatim>\<open>str\<close> or a \<^verbatim>\<open>pathlib.Path\<close>.\<close>

datatype pyobj = PyStr string | PyPath string

fun truthy :: "pyval \<Rightarrow> bool" where
  "truthy (PInt n) = (n \<noteq> 0)"
| "truthy (PStr s) = (s \<noteq> [])"

subsection \<open>Characters and strings\<close>

definition newline :: char where
  "newline = CHR 0x0A"

definition quote :: char where
  "quote = CHR 0x27"

definition is_digit :: "char \<Rightarrow> bool" where
  "is_digit c = (48 \<le> (of_char c :: nat) \<and> (of_char c :: nat) \<le> 57)"

definition lower :: "char \<Rightarrow> char" where
  "lower c = (if 65 \<le> (of_char c :: nat) \<and> (of_char c :: nat) \<le> 90
              then char_of ((of_char c :: nat) + 32) else c)"

text \<open>\<^verbatim>\<open>s.startswith(p)\<close>, and the same up to ASCII case.\<close>

fun startswith :: "string \<Rightarrow> string \<Rightarrow> bool" where
  "startswith s [] = True"
| "startswith [] (p # ps) = False"
| "startswith (c # cs) (p # ps) = (c = p \<and> startswith cs ps)"

fun startswith_ci :: "string \<Rightarrow> string \<Rightarrow> bool" where
  "startswith_ci s [] = True"
| "startswith_ci [] (p # ps) = False"
| "startswith_ci (c # cs) (p # ps) = (lower c = lower p \<and> startswith_ci cs ps)"

text \<open>\<^verbatim>\<open>p in s\<close> for strings.\<close>

fun contains :: "string \<Rightarrow> string \<Rightarrow> bool" where
  "contains [] p = (p = [])"
| "contains (c # cs) p = (startswith (c # cs) p \<or> contains cs p)"

text \<open>\<^verbatim>\<open>str(n)\<close> for a natural number, and \<^verbatim>\<open>int(s)\<close> on a string of ASCII digits.\<close>

definition digit_char :: "nat \<Rightarrow> char" where
  "digit_char n = ''0123456789'' ! n"

function str_nat :: "nat \<Rightarrow> string" where
  "str_nat n =
     (if n < 10 then [digit_char n]
      else str_nat (n div 10) @ [digit_char (n mod 10)])"
  by pat_completeness auto
termination
  by (relation "measure (\<lambda>n. n)") auto

declare str_nat.simps [simp del]

definition str_int :: "int \<Rightarrow> string" where
  "str_int i = (if i < 0 then CHR ''-'' # str_nat (nat (- i)) else str_nat (nat i))"

definition int_digits :: "string \<Rightarrow> int" where
  "int_digits s = foldl (\<lambda>a c. 10 * a + (int (of_char c) - 48)) 0 s"

text \<open>
  \<^verbatim>\<open>int(s)\<close> on any string: white space is stripped at both ends, a sign may follow, and
  the rest is groups of ASCII digits separated by single underscores.
\<close>

definition is_space :: "char \<Rightarrow> bool" where
  "is_space c = ((of_char c :: nat) \<in> {9, 10, 11, 12, 13, 32, 133, 160})"

definition strip :: "string \<Rightarrow> string" where
  "strip s = rev (dropWhile is_space (rev (dropWhile is_space s)))"

fun digit_groups :: "bool \<Rightarrow> string \<Rightarrow> bool" where
  "digit_groups after_digit [] = after_digit"
| "digit_groups after_digit (c # cs) =
     (if is_digit c then digit_groups True cs
      else if c = CHR ''_'' then after_digit \<and> cs \<noteq> [] \<and> is_digit (hd cs) \<and> digit_groups False cs
      else False)"

definition py_int :: "string \<Rightarrow> error + int" where
  "py_int s =
     (let t = strip s;
          neg = (t \<noteq> [] \<and> hd t = CHR ''-'');
          body = (if t \<noteq> [] \<and> (hd t = CHR ''-'' \<or> hd t = CHR ''+'') then tl t else t)
      in if digit_groups False body
         then Inr ((if neg then - 1 else 1) * int_digits (filter is_digit body))
         else Inl ValueError)"

fun int_of :: "pyval \<Rightarrow> error + int" where
  "int_of (PInt n) = Inr n"
| "int_of (PStr s) = py_int s"

subsection \<open>Settings\<close>

text \<open>
  The module-level constants. \<^verbatim>\<open>DOWNLOAD_PATH\<close> and \<^verbatim>\<open>CUSTOM_FOLDER\<close> are
  \<^verbatim>\<open>pathlib.Path\<close> objects (lines 88 to 91), held as their strings; the first is already
  expanded. The main block rebinds \<^verbatim>\<open>RESOLUTION_X\<close>, \<^verbatim>\<open>RESOLUTION_Y\<close> and
  \<^verbatim>\<open>DOWNLOAD_PATH\<close>, which the model does by updating the record.
\<close>

record config =
  DOWNLOAD_PATH :: string
  CUSTOM_FOLDER :: string
  RESOLUTION_TYPE :: string
  RESOLUTION_X :: int
  RESOLUTION_Y :: int
  NASA_APOD_SITE :: string
  IMAGE_SCROLL :: bool
  IMAGE_DURATION :: int
  SEED_IMAGES :: int
  SHOW_DEBUG :: bool
  SCREEN_UTILITY :: string
  SET_BG_CMD :: string

subsection \<open>The regular expressions of \<^verbatim>\<open>find_resolution\<close>\<close>

text \<open>
  \<^verbatim>\<open>' connected ([0-9]+)x([0-9]+)+'\<close> and \<^verbatim>\<open>' res:([0-9]+)x([0-9]+)+ '\<close>: a literal, a
  run of digits, \<^verbatim>\<open>x\<close>, a run of digits and, for the second, a space. Both runs are
  maximal, since the character that must follow a run is not a digit. \<open>match_wxh\<close> matches
  at the head of the text and returns the two groups and the text after the match.
\<close>

definition match_wxh :: "string \<Rightarrow> bool \<Rightarrow> string \<Rightarrow> (string \<times> string \<times> string) option" where
  "match_wxh lit trailing_space s =
     (if startswith s lit then
        (let r = drop (length lit) s;
             g1 = takeWhile is_digit r;
             r1 = dropWhile is_digit r
         in if g1 = [] then None
            else case r1 of
              [] \<Rightarrow> None
            | c # r2 \<Rightarrow>
                if c \<noteq> CHR ''x'' then None
                else (let g2 = takeWhile is_digit r2;
                          r3 = dropWhile is_digit r2
                      in if g2 = [] then None
                         else if trailing_space then
                           (case r3 of
                              [] \<Rightarrow> None
                            | d # r4 \<Rightarrow> if d = CHR '' '' then Some (g1, g2, r4) else None)
                         else Some (g1, g2, r3)))
      else None)"

lemma match_wxh_shorter:
  "match_wxh lit sp s = Some (g1, g2, rest) \<Longrightarrow> length rest < length s"
proof -
  have dw: "length (dropWhile is_digit xs) \<le> length xs" for xs
    by (induction xs) auto
  assume m: "match_wxh lit sp s = Some (g1, g2, rest)"
  define r where "r = drop (length lit) s"
  from m obtain r2 where r1: "dropWhile is_digit r = CHR ''x'' # r2"
    unfolding match_wxh_def r_def
    by (auto simp: Let_def split: if_splits list.splits)
  from m r1 have "length rest \<le> length (dropWhile is_digit r2)"
    unfolding match_wxh_def r_def
    by (auto simp: Let_def split: if_splits list.splits)
  also have "\<dots> \<le> length r2" by (rule dw)
  also have "\<dots> < length (dropWhile is_digit r)" using r1 by simp
  also have "\<dots> \<le> length r" by (rule dw)
  also have "\<dots> \<le> length s" by (simp add: r_def)
  finally show ?thesis .
qed

text \<open>
  \<^verbatim>\<open>re.finditer\<close>: the matches from left to right, the scan resuming where the last match
  ended.
\<close>

function finditer_wxh :: "string \<Rightarrow> bool \<Rightarrow> string \<Rightarrow> (string \<times> string) list" where
  "finditer_wxh lit sp [] = []"
| "finditer_wxh lit sp (c # cs) =
     (case match_wxh lit sp (c # cs) of
        Some (g1, g2, rest) \<Rightarrow> (g1, g2) # finditer_wxh lit sp rest
      | None \<Rightarrow> finditer_wxh lit sp cs)"
  by pat_completeness auto
termination
  by (relation "measure (\<lambda>(lit, sp, s). length s)") (auto dest: match_wxh_shorter)

text \<open>
  \<^verbatim>\<open>re.search('.* current (.*?) x (.*?),.*', output)\<close>. The dot does not match a line
  break, so a match lies in one line, and the first line that has a match gives it. In
  that line the greedy \<^verbatim>\<open>.*\<close> takes the last \<^verbatim>\<open>' current '\<close> after which the rest of the
  pattern still matches; group 1 then ends at the first \<^verbatim>\<open>' x '\<close> and group 2 at the first
  comma after it.
\<close>

fun split_lines :: "string \<Rightarrow> string list" where
  "split_lines [] = [[]]"
| "split_lines (c # cs) =
     (if c = newline then [] # split_lines cs
      else (case split_lines cs of l # ls \<Rightarrow> (c # l) # ls | [] \<Rightarrow> [[c]]))"

text \<open>The text before the first occurrence of \<open>p\<close> in \<open>s\<close>, and the text after it.\<close>

fun partition_at :: "string \<Rightarrow> string \<Rightarrow> (string \<times> string) option" where
  "partition_at [] p = (if p = [] then Some ([], []) else None)"
| "partition_at (c # cs) p =
     (if startswith (c # cs) p then Some ([], drop (length p) (c # cs))
      else map_option (\<lambda>(a, b). (c # a, b)) (partition_at cs p))"

definition current_tail :: "string \<Rightarrow> (string \<times> string) option" where
  "current_tail r =
     (case partition_at r '' x '' of
        None \<Rightarrow> None
      | Some (g1, r1) \<Rightarrow>
          (case partition_at r1 '','' of
             None \<Rightarrow> None
           | Some (g2, r2) \<Rightarrow> Some (g1, g2)))"

fun current_in_line :: "string \<Rightarrow> (string \<times> string) option" where
  "current_in_line [] = None"
| "current_in_line (c # cs) =
     (case current_in_line cs of
        Some g \<Rightarrow> Some g
      | None \<Rightarrow>
          if startswith (c # cs) '' current '' then current_tail (drop 9 (c # cs)) else None)"

fun first_some :: "('a \<Rightarrow> 'b option) \<Rightarrow> 'a list \<Rightarrow> 'b option" where
  "first_some f [] = None"
| "first_some f (x # xs) = (case f x of Some y \<Rightarrow> Some y | None \<Rightarrow> first_some f xs)"

definition search_current :: "string \<Rightarrow> (string \<times> string) option" where
  "search_current output = first_some current_in_line (split_lines output)"

text \<open>
  \<^verbatim>\<open>re.search('res:(.*?)x(.*?)', output)\<close>: the first \<^verbatim>\<open>res:\<close> that has an \<^verbatim>\<open>x\<close> later in
  its line; group 1 ends at that \<^verbatim>\<open>x\<close>, and group 2, lazy and last in the pattern, is
  empty.
\<close>

fun res_in_line :: "string \<Rightarrow> (string \<times> string) option" where
  "res_in_line [] = None"
| "res_in_line (c # cs) =
     (if startswith (c # cs) ''res:'' then
        (case partition_at (drop 4 (c # cs)) ''x'' of
           Some (g1, r) \<Rightarrow> Some (g1, [])
         | None \<Rightarrow> res_in_line cs)
      else res_in_line cs)"

definition search_res :: "string \<Rightarrow> (string \<times> string) option" where
  "search_res output = first_some res_in_line (split_lines output)"

subsection \<open>The world outside the script\<close>

text \<open>
  A response body is the text of a page or an encoded picture, of which the model keeps
  the format and the pixel dimensions that \<^verbatim>\<open>PIL.Image.open\<close> reports; a file of zero
  bytes is the empty text. A request is answered with a body and the declared
  \<^verbatim>\<open>Content-Length\<close> (if any), with an HTTP error status, or not at all.
\<close>

datatype body = Page string | Picture string nat nat

datatype reply = Reply body "nat option" | HttpErr nat | UrlErr

text \<open>The element tree that \<^verbatim>\<open>lxml.etree\<close> builds: tag, text, children.\<close>

datatype xml = Element string "string option" "xml list"

datatype content = Stored body | Tree xml

datatype event =
    Fetched string
  | Ran string

text \<open>
  \<open>files\<close> lists the regular files with their contents, in the order in which a directory
  scan yields them. \<open>today\<close> is the proleptic Gregorian ordinal of the current date (1 is
  1 January of year 1, as \<^verbatim>\<open>date.toordinal\<close>). \<open>randoms\<close> are the numbers the random
  generator will draw. \<open>screen_pipe u p\<close> is what the script reads from the pipe
  \<^verbatim>\<open>u | grep p\<close>. \<open>glib_downloads\<close> is the download folder GLib reports, \<open>None\<close> if the
  module cannot be imported. \<open>shell c\<close> is the exit status of the shell command \<open>c\<close>.
  \<open>log\<close> records requests and shell commands, oldest first.
\<close>

record world =
  web :: "string \<Rightarrow> reply"
  files :: "(string \<times> content) list"
  dirs :: "string list"
  today :: nat
  randoms :: "nat list"
  screen_pipe :: "string \<Rightarrow> string \<Rightarrow> string"
  glib_downloads :: "string option"
  shell :: "string \<Rightarrow> int"
  log :: "event list"

definition emit :: "event \<Rightarrow> world \<Rightarrow> world" where
  "emit e w = w\<lparr>log := log w @ [e]\<rparr>"

definition isfile :: "world \<Rightarrow> string \<Rightarrow> bool" where
  "isfile w p = (map_of (files w) p \<noteq> None)"

fun store :: "string \<Rightarrow> content \<Rightarrow> (string \<times> content) list \<Rightarrow> (string \<times> content) list" where
  "store p c [] = [(p, c)]"
| "store p c ((q, d) # fs) = (if q = p then (p, c) # fs else (q, d) # store p c fs)"

definition write_file :: "string \<Rightarrow> content \<Rightarrow> world \<Rightarrow> world" where
  "write_file p c w = w\<lparr>files := store p c (files w)\<rparr>"

subsection \<open>\<^verbatim>\<open>find_resolution\<close>\<close>

text \<open>
  The loop over the matches in mode \<^verbatim>\<open>largest\<close>. Its state is \<^verbatim>\<open>largest\<close>, \<^verbatim>\<open>res_x\<close> and
  \<^verbatim>\<open>res_y\<close>; the body assigns the last two and never \<^verbatim>\<open>largest\<close>.
\<close>

fun largest_loop :: "(string \<times> string) list \<Rightarrow> int \<times> pyval \<times> pyval \<Rightarrow> int \<times> pyval \<times> pyval" where
  "largest_loop [] st = st"
| "largest_loop ((g1, g2) # matches) (largest, res_x, res_y) =
     largest_loop matches
       (if int_digits g1 * int_digits g2 > largest then (largest, PStr g1, PStr g2)
        else (largest, res_x, res_y))"

definition find_resolution :: "config \<Rightarrow> world \<Rightarrow> error + (int \<times> int)" where
  "find_resolution cfg w =
     (if RESOLUTION_TYPE cfg = ''default'' then Inr (RESOLUTION_X cfg, RESOLUTION_Y cfg)
      else
        (let regex_search = (if RESOLUTION_TYPE cfg = ''largest'' then ''connected'' else ''current'');
             output = screen_pipe w (SCREEN_UTILITY cfg) regex_search;
             found =
               (if SCREEN_UTILITY cfg = ''xrandr'' then
                  (if RESOLUTION_TYPE cfg = ''largest'' then
                     snd (largest_loop (finditer_wxh '' connected '' False output) (0, PInt 0, PInt 0))
                   else
                     (case search_current output of
                        Some (g1, g2) \<Rightarrow> (PStr g1, PStr g2)
                      | None \<Rightarrow> (PInt 0, PInt 0)))
                else if contains (SCREEN_UTILITY cfg) ''displayplacer'' then
                  (if RESOLUTION_TYPE cfg = ''largest'' then
                     snd (largest_loop (finditer_wxh '' res:'' True output) (0, PInt 0, PInt 0))
                   else
                     (case search_res output of
                        Some (g1, g2) \<Rightarrow> (PStr g1, PStr g2)
                      | None \<Rightarrow> (PInt 0, PInt 0)))
                else (PInt 0, PInt 0));
             res = (if \<not> (truthy (fst found) \<and> truthy (snd found))
                    then (PInt (RESOLUTION_X cfg), PInt (RESOLUTION_Y cfg)) else found)
         in case int_of (fst res) of
              Inl e \<Rightarrow> Inl e
            | Inr x \<Rightarrow> (case int_of (snd res) of Inl e \<Rightarrow> Inl e | Inr y \<Rightarrow> Inr (x, y))))"

subsection \<open>\<^verbatim>\<open>pathlib\<close> and \<^verbatim>\<open>os.path\<close> on path strings\<close>

text \<open>
  A path string is split at its last separator into the directory part (with the
  separator) and the final component. The final component of \<^verbatim>\<open>Path('.')\<close> and of
  \<^verbatim>\<open>Path('')\<close> is empty.
\<close>

definition slash :: char where
  "slash = CHR ''/''"

definition basename :: "string \<Rightarrow> string" where
  "basename p = rev (takeWhile (\<lambda>c. c \<noteq> slash) (rev p))"

definition dirpart :: "string \<Rightarrow> string" where
  "dirpart p = rev (dropWhile (\<lambda>c. c \<noteq> slash) (rev p))"

definition name_of :: "string \<Rightarrow> string" where
  "name_of p = (if p = ''.'' then [] else basename p)"

text \<open>
  \<^verbatim>\<open>PurePath.suffix\<close>: from the last dot of the name on, unless that dot is the first or
  the last character of the name.
\<close>

definition suffix_of :: "string \<Rightarrow> string" where
  "suffix_of name =
     (let after = takeWhile (\<lambda>c. c \<noteq> CHR ''.'') (rev name)
      in if CHR ''.'' \<in> set name \<and> after \<noteq> [] \<and> Suc (length after) < length name
         then CHR ''.'' # rev after else [])"

definition with_name :: "string \<Rightarrow> string \<Rightarrow> error + string" where
  "with_name p name =
     (if name_of p = [] then Inl ValueError
      else if name = [] \<or> slash \<in> set name \<or> name = ''.'' then Inl ValueError
      else Inr (dirpart p @ name))"

text \<open>
  \<^verbatim>\<open>with_stem(stem)\<close> is \<^verbatim>\<open>with_name(stem + self.suffix)\<close>. The sum is formed first; it
  needs a \<^verbatim>\<open>str\<close> on its left, and a \<^verbatim>\<open>Path\<close> there raises \<^verbatim>\<open>TypeError\<close>.
\<close>

definition with_stem :: "string \<Rightarrow> pyobj \<Rightarrow> error + string" where
  "with_stem p stem =
     (case stem of
        PyPath q \<Rightarrow> Inl TypeError
      | PyStr s \<Rightarrow> with_name p (s @ suffix_of (name_of p)))"

definition with_suffix :: "string \<Rightarrow> string \<Rightarrow> error + string" where
  "with_suffix p suffix =
     (if slash \<in> set suffix then Inl ValueError
      else if (suffix \<noteq> [] \<and> hd suffix \<noteq> CHR ''.'') \<or> suffix = ''.'' then Inl ValueError
      else if name_of p = [] then Inl ValueError
      else (let name = name_of p; old_suffix = suffix_of name
            in Inr (dirpart p @ take (length name - length old_suffix) name @ suffix)))"

text \<open>\<^verbatim>\<open>directory / name\<close>, and the name under which a directory scan finds a path.\<close>

definition joinpath :: "string \<Rightarrow> string \<Rightarrow> string" where
  "joinpath d n = (if d = ''.'' then n else d @ [slash] @ n)"

definition entry_name :: "string \<Rightarrow> string \<Rightarrow> string option" where
  "entry_name d p =
     (let n = (if d = ''.'' then p else drop (Suc (length d)) p)
      in if n \<noteq> [] \<and> slash \<notin> set n \<and> p = joinpath d n then Some n else None)"

definition endswith :: "string \<Rightarrow> string \<Rightarrow> bool" where
  "endswith s p = startswith (rev s) (rev p)"

text \<open>\<^verbatim>\<open>list(directory.glob('*.png'))\<close>: the entries are \<^verbatim>\<open>Path\<close> objects.\<close>

definition glob_png :: "world \<Rightarrow> string \<Rightarrow> string list" where
  "glob_png w d =
     filter (\<lambda>p. case entry_name d p of Some n \<Rightarrow> endswith n ''.png'' | None \<Rightarrow> False)
       (map fst (files w))"

subsection \<open>\<^verbatim>\<open>download_site\<close>\<close>

text \<open>What \<^verbatim>\<open>download_site\<close> returns: the bytes read, or the string built from the status.\<close>

datatype pytext = Bytes body | Str string

definition download_site :: "config \<Rightarrow> world \<Rightarrow> string \<Rightarrow> (error + pytext) \<times> world" where
  "download_site cfg w url =
     (case web w url of
        Reply b n \<Rightarrow> (Inr (Bytes b), emit (Fetched url) w)
      | HttpErr code \<Rightarrow> (Inr (Str (''Error: '' @ str_nat code)), emit (Fetched url) w)
      | UrlErr \<Rightarrow> (Inl URLError, emit (Fetched url) w))"

subsection \<open>\<^verbatim>\<open>get_image_info\<close>\<close>

text \<open>
  \<^verbatim>\<open>re.search('<' + element + "='(image.*?)'", text, re.IGNORECASE)\<close>: the first place where
  the literal part stands, in any case, and a quote follows before the line ends. Group 1
  runs from \<^verbatim>\<open>image\<close> to that quote.
\<close>

fun until_quote :: "string \<Rightarrow> string option" where
  "until_quote [] = None"
| "until_quote (c # cs) =
     (if c = quote then Some []
      else if c = newline then None
      else map_option (\<lambda>g. c # g) (until_quote cs))"

fun search_image :: "string \<Rightarrow> string \<Rightarrow> string option" where
  "search_image element [] = None"
| "search_image element (c # cs) =
     (let opening = ''<'' @ element @ ''='' @ [quote]
      in if startswith_ci (c # cs) (opening @ ''image'') then
           (case until_quote (drop (length opening) (c # cs)) of
              Some g \<Rightarrow> Some g
            | None \<Rightarrow> search_image element cs)
         else search_image element cs)"

text \<open>\<^verbatim>\<open>str(text, encoding='utf-8')\<close> when \<^verbatim>\<open>text\<close> is bytes; an encoded picture is not UTF-8.\<close>

fun as_str :: "pytext \<Rightarrow> error + string" where
  "as_str (Str s) = Inr s"
| "as_str (Bytes (Page s)) = Inr s"
| "as_str (Bytes (Picture f x y)) = Inl UnicodeDecodeError"

text \<open>
  \<^verbatim>\<open>urllib.urlopen(file_url)\<close> (line 459): the module \<^verbatim>\<open>urllib\<close> of Python 3 has no
  attribute \<^verbatim>\<open>urlopen\<close>, so the attribute reference raises \<^verbatim>\<open>AttributeError\<close> before
  anything is called and no request is sent. The value would be the declared
  \<^verbatim>\<open>Content-Length\<close> that line 462 reads from the response.
\<close>

definition urlopen :: "world \<Rightarrow> string \<Rightarrow> (error + nat option) \<times> world" where
  "urlopen w url = (Inl AttributeError, w)"

text \<open>
  The result is \<open>None\<close> for \<^verbatim>\<open>(None, None, None)\<close> and otherwise the URL, the file name and
  the declared size; \<^verbatim>\<open>float(None)\<close> raises \<^verbatim>\<open>TypeError\<close>.
\<close>

definition get_image_info ::
  "config \<Rightarrow> world \<Rightarrow> string \<Rightarrow> pytext \<Rightarrow> (error + (string \<times> string \<times> nat) option) \<times> world" where
  "get_image_info cfg w element text =
     (case as_str text of
        Inl e \<Rightarrow> (Inl e, w)
      | Inr t \<Rightarrow>
          (case search_image element t of
             None \<Rightarrow> (Inr None, w)
           | Some g \<Rightarrow>
               (let file_url = (if contains g ''http'' then g else NASA_APOD_SITE cfg @ g)
                in case urlopen w file_url of
                     (Inl e, w1) \<Rightarrow> (Inl e, w1)
                   | (Inr None, w1) \<Rightarrow> (Inl TypeError, w1)
                   | (Inr (Some file_size), w1) \<Rightarrow>
                       (Inr (Some (file_url, basename file_url, file_size)), w1))))"

subsection \<open>\<^verbatim>\<open>get_image\<close>\<close>

text \<open>
  \<^verbatim>\<open>urllib.urlretrieve\<close> (lines 273 and 279) is no attribute of \<^verbatim>\<open>urllib\<close> either: nothing
  is requested and nothing is stored.
\<close>

definition urlretrieve :: "world \<Rightarrow> string \<Rightarrow> string \<Rightarrow> (error + unit) \<times> world" where
  "urlretrieve w url filename = (Inl AttributeError, w)"

text \<open>
  \<^verbatim>\<open>Path(filename).with_stem(DOWNLOAD_PATH).with_suffix('.png')\<close> (line 251), where
  \<^verbatim>\<open>DOWNLOAD_PATH\<close> is a \<^verbatim>\<open>Path\<close>.
\<close>

definition save_path :: "config \<Rightarrow> string \<Rightarrow> error + string" where
  "save_path cfg filename =
     (case with_stem filename (PyPath (DOWNLOAD_PATH cfg)) of
        Inl e \<Rightarrow> Inl e
      | Inr p \<Rightarrow> with_suffix p ''.png'')"

text \<open>Both branches of \<^verbatim>\<open>if SHOW_DEBUG\<close> retrieve the file; they differ in what is printed.\<close>

definition retrieve_to :: "world \<Rightarrow> string \<Rightarrow> string \<Rightarrow> (error + string option) \<times> world" where
  "retrieve_to w file_url save_to =
     (case urlretrieve w file_url save_to of
        (Inl e, w') \<Rightarrow> (Inl e, w')
      | (Inr u, w') \<Rightarrow> (Inr (Some save_to), w'))"

definition get_image :: "config \<Rightarrow> world \<Rightarrow> pytext \<Rightarrow> (error + string option) \<times> world" where
  "get_image cfg w text =
     (case get_image_info cfg w ''a href'' text of
        (Inl e, w1) \<Rightarrow> (Inl e, w1)
      | (Inr None, w1) \<Rightarrow> (Inr None, w1)
      | (Inr (Some (file_url, filename, file_size)), w1) \<Rightarrow>
          (case save_path cfg filename of
             Inl e \<Rightarrow> (Inl e, w1)
           | Inr save_to \<Rightarrow>
               if \<not> isfile w1 save_to then
                 (if file_size < 500 then
                    (case get_image_info cfg w1 ''img src'' text of
                       (Inl e, w2) \<Rightarrow> (Inl e, w2)
                     | (Inr None, w2) \<Rightarrow> (Inr None, w2)
                     | (Inr (Some (file_url2, filename2, file_size2)), w2) \<Rightarrow>
                         if file_size2 < 500 then (Inl SystemExit, w2)
                         else retrieve_to w2 file_url2 save_to)
                  else retrieve_to w1 file_url save_to)
               else (Inr (Some save_to), w1)))"

subsection \<open>\<^verbatim>\<open>resize_image\<close>\<close>

text \<open>
  \<^verbatim>\<open>Image.open\<close> needs a file that holds a picture. When the size differs from the target,
  \<^verbatim>\<open>Image.resize\<close> (of a Pillow that still has \<^verbatim>\<open>Image.ANTIALIAS\<close>) refuses a size that is
  not positive; then \<^verbatim>\<open>open(filename, 'w')\<close> truncates the file and gives a text handle,
  on which \<^verbatim>\<open>image.save\<close> raises \<^verbatim>\<open>TypeError\<close> at its first write of bytes. The \<^verbatim>\<open>with\<close>
  statement closes the file, which is left with zero bytes.
\<close>

definition resize_image :: "config \<Rightarrow> world \<Rightarrow> string \<Rightarrow> (error + unit) \<times> world" where
  "resize_image cfg w filename =
     (case map_of (files w) filename of
        None \<Rightarrow> (Inl FileNotFoundError, w)
      | Some (Tree t) \<Rightarrow> (Inl UnidentifiedImageError, w)
      | Some (Stored (Page s)) \<Rightarrow> (Inl UnidentifiedImageError, w)
      | Some (Stored (Picture f current_x current_y)) \<Rightarrow>
          if (int current_x, int current_y) = (RESOLUTION_X cfg, RESOLUTION_Y cfg) then (Inr (), w)
          else if RESOLUTION_X cfg < 1 \<or> RESOLUTION_Y cfg < 1 then (Inl ValueError, w)
          else (Inl TypeError, write_file filename (Stored (Page [])) w))"

subsection \<open>\<^verbatim>\<open>human_readable_size\<close>\<close>

text \<open>
  The byte count is a rational number: the comparison with \<^verbatim>\<open>1024.0\<close> and the division
  by it are exact on floats. \<open>Formatted n x\<close> stands for the string
  \<^verbatim>\<open>'%3.2f%s' % (n, x)\<close>; \<open>None\<close> is Python's \<^verbatim>\<open>None\<close>, returned when the loop ends.
\<close>

datatype formatted = Formatted rat string

fun size_loop :: "string list \<Rightarrow> rat \<Rightarrow> formatted option" where
  "size_loop [] number_bytes = None"
| "size_loop (x # xs) number_bytes =
     (if number_bytes < 1024 then Some (Formatted number_bytes x)
      else size_loop xs (number_bytes / 1024))"

definition human_readable_size :: "rat \<Rightarrow> formatted option" where
  "human_readable_size number_bytes = size_loop [''bytes'', ''KB'', ''MB''] number_bytes"

subsection \<open>Dates\<close>

text \<open>
  \<^verbatim>\<open>datetime.now() - timedelta(days=k)\<close> exists while its date is not before 1 January of
  year 1. \<open>civil\<close> turns an ordinal into year, month and day of the proleptic Gregorian
  calendar; \<open>strftime_ymd\<close> is \<^verbatim>\<open>strftime('%y%m%d')\<close>.
\<close>

definition civil :: "nat \<Rightarrow> nat \<times> nat \<times> nat" where
  "civil ordinal =
     (let z = ordinal + 305;
          era = z div 146097;
          doe = z mod 146097;
          yoe = (doe + doe div 36524 - doe div 1460 - doe div 146096) div 365;
          doy = doe + yoe div 100 - 365 * yoe - yoe div 4;
          mp = (5 * doy + 2) div 153;
          d = doy + 1 - (153 * mp + 2) div 5;
          m = (if mp < 10 then mp + 3 else mp - 9);
          y = yoe + era * 400 + (if m \<le> 2 then 1 else 0)
      in (y, m, d))"

definition two_digits :: "nat \<Rightarrow> string" where
  "two_digits n = str_nat (n div 10 mod 10) @ str_nat (n mod 10)"

definition strftime_ymd :: "nat \<Rightarrow> string" where
  "strftime_ymd ordinal =
     (case civil ordinal of (y, m, d) \<Rightarrow> two_digits y @ two_digits m @ two_digits d)"

subsection \<open>The seeding loop of \<^verbatim>\<open>create_desktop_background_scoll\<close>\<close>

text \<open>What the callees of the loop leave of the world.\<close>

lemma download_site_world:
  "download_site cfg w url = (r, w') \<Longrightarrow> w' = emit (Fetched url) w"
  by (auto simp: download_site_def split: reply.splits)

lemma get_image_info_world:
  "get_image_info cfg w el text = (r, w') \<Longrightarrow> w' = w \<and> (\<forall>x. r \<noteq> Inr (Some x))"
  by (auto simp: get_image_info_def urlopen_def split: sum.splits option.splits)

lemma get_image_world:
  "get_image cfg w text = (r, w') \<Longrightarrow> w' = w \<and> (\<forall>p. r \<noteq> Inr (Some p))"
  unfolding get_image_def
  by (auto split: prod.splits sum.splits option.splits dest!: get_image_info_world)

lemma today_resize_image: "resize_image cfg w f = (r, w') \<Longrightarrow> today w' = today w"
  by (auto simp: resize_image_def write_file_def
      split: option.splits content.splits body.splits if_splits)

text \<open>\<^verbatim>\<open>NASA_APOD_SITE + 'ap' + day_to_try.strftime('%y%m%d') + '.html'\<close>\<close>

definition seed_page :: "config \<Rightarrow> nat \<Rightarrow> string" where
  "seed_page cfg ordinal = NASA_APOD_SITE cfg @ ''ap'' @ strftime_ymd ordinal @ ''.html''"

text \<open>
  The state of the \<^verbatim>\<open>while\<close> loop is \<^verbatim>\<open>days_back\<close>, \<^verbatim>\<open>seed_images_left\<close> and \<^verbatim>\<open>images\<close>.
  The loop ends when \<^verbatim>\<open>seed_images_left\<close> is 0 or an exception leaves it; the subtraction
  of the days raises \<^verbatim>\<open>OverflowError\<close> once the date would fall before year 1.
\<close>

function seed_loop ::
  "config \<Rightarrow> world \<Rightarrow> nat \<Rightarrow> int \<Rightarrow> string list \<Rightarrow> (error + string list) \<times> world" where
  "seed_loop cfg w days_back seed_images_left images =
     (if seed_images_left > 0 then
        (if \<not> Suc days_back < today w then (Inl OverflowError, w)
         else
           (case download_site cfg w (seed_page cfg (today w - Suc days_back)) of
              (Inl e, w1) \<Rightarrow> (Inl e, w1)
            | (Inr seed_site_contents, w1) \<Rightarrow>
                if seed_site_contents = Str ''error'' then
                  seed_loop cfg w1 (Suc days_back) seed_images_left images
                else
                  (case get_image cfg w1 seed_site_contents of
                     (Inl e, w2) \<Rightarrow> (Inl e, w2)
                   | (Inr None, w2) \<Rightarrow> seed_loop cfg w2 (Suc days_back) seed_images_left images
                   | (Inr (Some seed_filename), w2) \<Rightarrow>
                       (case resize_image cfg w2 seed_filename of
                          (Inl e, w3) \<Rightarrow> (Inl e, w3)
                        | (Inr u, w3) \<Rightarrow>
                            seed_loop cfg w3 (Suc days_back) (seed_images_left - 1)
                              (images @ [seed_filename])))))
      else (Inr images, w))"
  by pat_completeness auto
termination
proof (relation "measure (\<lambda>(cfg, w, days_back, left, images). today w - days_back)", goal_cases)
  case 1
  show ?case by simp
next
  case 2
  then show ?case
    by (auto simp: emit_def dest!: sym [of "(_, _)"] download_site_world)
next
  case 3
  then show ?case
    by (auto simp: emit_def dest!: sym [of "(_, _)"] download_site_world get_image_world)
next
  case 4
  then show ?case
    by (auto simp: emit_def
        dest!: sym [of "(_, _)"] download_site_world get_image_world today_resize_image)
qed

declare seed_loop.simps [simp del]

subsection \<open>\<^verbatim>\<open>random.shuffle\<close>\<close>

text \<open>
  \<^verbatim>\<open>for i in reversed(range(1, len(x))): j = randbelow(i + 1); x[i], x[j] = x[j], x[i]\<close>.
  A draw takes the next number of the world, reduced below the bound.
\<close>

definition randbelow :: "nat \<Rightarrow> world \<Rightarrow> nat \<times> world" where
  "randbelow n w =
     (case randoms w of
        [] \<Rightarrow> (0, w)
      | r # rs \<Rightarrow> (r mod n, w\<lparr>randoms := rs\<rparr>))"

fun shuffle_loop :: "nat \<Rightarrow> 'a list \<Rightarrow> world \<Rightarrow> 'a list \<times> world" where
  "shuffle_loop 0 x w = (x, w)"
| "shuffle_loop (Suc i) x w =
     (case randbelow (Suc i + 1) w of
        (j, w') \<Rightarrow> shuffle_loop i (x[Suc i := x ! j, j := x ! Suc i]) w')"

definition shuffle :: "'a list \<Rightarrow> world \<Rightarrow> 'a list \<times> world" where
  "shuffle x w = shuffle_loop (length x - 1) x w"

subsection \<open>\<^verbatim>\<open>create_desktop_background_scoll\<close>\<close>

text \<open>
  \<^verbatim>\<open>etree.SubElement(parent, tag)\<close> followed by the assignment of the element's \<^verbatim>\<open>text\<close>.
  \<^verbatim>\<open>lxml\<close> encodes the value as UTF-8 and raises \<^verbatim>\<open>TypeError\<close> for an object that is
  neither \<^verbatim>\<open>str\<close> nor \<^verbatim>\<open>bytes\<close>.
\<close>

fun text_element :: "string \<Rightarrow> pyobj \<Rightarrow> error + xml" where
  "text_element tag (PyStr s) = Inr (Element tag (Some s) [])"
| "text_element tag (PyPath p) = Inl TypeError"

text \<open>
  One pass of the \<^verbatim>\<open>for\<close> loop (lines 396 to 427): a \<^verbatim>\<open>static\<close> element and a
  \<^verbatim>\<open>transition\<close> element, the texts assigned in the order of the source. The entries of
  \<^verbatim>\<open>images\<close> are \<^verbatim>\<open>Path\<close> objects: those of the directory scan, and what \<^verbatim>\<open>get_image\<close>
  returns.
\<close>

definition entry_elements :: "config \<Rightarrow> string list \<Rightarrow> nat \<Rightarrow> error + xml list" where
  "entry_elements cfg images i =
     (case text_element ''duration'' (PyStr (str_int (IMAGE_DURATION cfg))) of
        Inl e \<Rightarrow> Inl e
      | Inr duration \<Rightarrow>
     (case text_element ''file'' (PyPath (images ! i)) of
        Inl e \<Rightarrow> Inl e
      | Inr static_file \<Rightarrow>
     (case text_element ''duration'' (PyStr ''5'') of
        Inl e \<Rightarrow> Inl e
      | Inr transition_duration \<Rightarrow>
     (case text_element ''from'' (PyPath (images ! i)) of
        Inl e \<Rightarrow> Inl e
      | Inr transition_from \<Rightarrow>
     (case text_element ''to''
             (PyPath (if i + 1 = length images then images ! 0 else images ! (i + 1))) of
        Inl e \<Rightarrow> Inl e
      | Inr transition_to \<Rightarrow>
          Inr [Element ''static'' None [duration, static_file],
               Element ''transition'' None
                 [transition_duration, transition_from, transition_to]])))))"

fun entries :: "config \<Rightarrow> string list \<Rightarrow> nat list \<Rightarrow> error + xml list" where
  "entries cfg images [] = Inr []"
| "entries cfg images (i # rest) =
     (case entry_elements cfg images i of
        Inl e \<Rightarrow> Inl e
      | Inr pair \<Rightarrow>
          (case entries cfg images rest of
             Inl e \<Rightarrow> Inl e
           | Inr others \<Rightarrow> Inr (pair @ others)))"

definition background :: "config \<Rightarrow> string list \<Rightarrow> error + xml" where
  "background cfg images =
     (case entries cfg images [0..<length images] of
        Inl e \<Rightarrow> Inl e
      | Inr children \<Rightarrow> Inr (Element ''background'' None children))"

text \<open>
  The playlist is written (line 430) only after the loop; \<^verbatim>\<open>xml_tree.write\<close> takes the
  target path through \<^verbatim>\<open>os.fspath\<close>.
\<close>

definition create_desktop_background_scoll ::
  "config \<Rightarrow> world \<Rightarrow> string option \<Rightarrow> (error + string option) \<times> world" where
  "create_desktop_background_scoll cfg w filename =
     (if \<not> IMAGE_SCROLL cfg then (Inr filename, w)
      else
        (let target = joinpath (DOWNLOAD_PATH cfg) ''nasa_apod_desktop_backgrounds.xml'';
             images = glob_png w (DOWNLOAD_PATH cfg);
             num_images = int (length images)
         in case (if num_images < SEED_IMAGES cfg
                  then seed_loop cfg w 0 (SEED_IMAGES cfg) images
                  else (Inr images, w)) of
              (Inl e, w1) \<Rightarrow> (Inl e, w1)
            | (Inr seeded, w1) \<Rightarrow>
                (case shuffle seeded w1 of
                   (shuffled, w2) \<Rightarrow>
                     (case background cfg shuffled of
                        Inl e \<Rightarrow> (Inl e, w2)
                      | Inr tree \<Rightarrow>
                          (Inr (Some target), write_file target (Tree tree) w2)))))"

subsection \<open>\<^verbatim>\<open>set_gnome_wallpaper\<close> and \<^verbatim>\<open>set_download_folder\<close>\<close>

text \<open>
  \<^verbatim>\<open>SET_BG_CMD.format(file_path)\<close> for templates made of text, doubled braces and \<^verbatim>\<open>{}\<close>;
  a second \<^verbatim>\<open>{}\<close> has no argument left, and any other use of a brace is reported as
  \<^verbatim>\<open>ValueError\<close>. A \<^verbatim>\<open>Path\<close> argument is formatted as its string.
\<close>

fun format_cmd :: "bool \<Rightarrow> string \<Rightarrow> string \<Rightarrow> error + string" where
  "format_cmd used [] arg = Inr []"
| "format_cmd used [c] arg = (if c = CHR ''{'' \<or> c = CHR ''}'' then Inl ValueError else Inr [c])"
| "format_cmd used (c # d # cs) arg =
     (if c = CHR ''{'' \<and> d = CHR ''{'' \<or> c = CHR ''}'' \<and> d = CHR ''}'' then
        (case format_cmd used cs arg of Inl e \<Rightarrow> Inl e | Inr r \<Rightarrow> Inr (c # r))
      else if c = CHR ''{'' \<and> d = CHR ''}'' then
        (if used then Inl IndexError
         else case format_cmd True cs arg of Inl e \<Rightarrow> Inl e | Inr r \<Rightarrow> Inr (arg @ r))
      else if c = CHR ''{'' \<or> c = CHR ''}'' then Inl ValueError
      else (case format_cmd used (d # cs) arg of Inl e \<Rightarrow> Inl e | Inr r \<Rightarrow> Inr (c # r)))"

definition set_gnome_wallpaper :: "config \<Rightarrow> world \<Rightarrow> string \<Rightarrow> (error + int) \<times> world" where
  "set_gnome_wallpaper cfg w file_path =
     (case format_cmd False (SET_BG_CMD cfg) file_path of
        Inl e \<Rightarrow> (Inl e, w)
      | Inr command \<Rightarrow> (Inr (shell w command), emit (Ran command) w))"

definition os_path_join :: "string \<Rightarrow> string \<Rightarrow> string" where
  "os_path_join a b =
     (if startswith b [slash] then b
      else if a = [] \<or> endswith a [slash] then a @ b
      else a @ [slash] @ b)"

text \<open>
  \<^verbatim>\<open>os.path.join\<close> of GLib's folder and \<^verbatim>\<open>CUSTOM_FOLDER\<close> is a \<^verbatim>\<open>str\<close>; without GLib the
  result is the \<^verbatim>\<open>Path\<close> \<^verbatim>\<open>DOWNLOAD_PATH\<close>.
\<close>

definition set_download_folder :: "config \<Rightarrow> world \<Rightarrow> pyobj" where
  "set_download_folder cfg w =
     (case glib_downloads w of
        None \<Rightarrow> PyPath (DOWNLOAD_PATH cfg)
      | Some downloads_dir \<Rightarrow>
          if downloads_dir \<noteq> [] then PyStr (os_path_join downloads_dir (CUSTOM_FOLDER cfg))
          else PyPath (DOWNLOAD_PATH cfg))"

subsection \<open>The main block\<close>

text \<open>
  \<open>Inr ()\<close> is the normal end of the script, \<open>Inl SystemExit\<close> a call of \<^verbatim>\<open>exit()\<close>, any other
  \<open>Inl\<close> an uncaught exception. Line 479 calls \<^verbatim>\<open>DOWNLOAD_PATH.expanduser()\<close>, which a
  \<^verbatim>\<open>str\<close> does not have. \<^verbatim>\<open>mkdir\<close> is recorded in \<open>dirs\<close>.
\<close>

definition main :: "config \<Rightarrow> world \<Rightarrow> (error + unit) \<times> world" where
  "main cfg w =
     (case find_resolution cfg w of
        Inl e \<Rightarrow> (Inl e, w)
      | Inr (x, y) \<Rightarrow>
          (let cfg1 = cfg\<lparr>RESOLUTION_X := x, RESOLUTION_Y := y\<rparr>
           in case set_download_folder cfg1 w of
                PyStr new_path \<Rightarrow> (Inl AttributeError, w)
              | PyPath new_path \<Rightarrow>
          (let cfg2 = cfg1\<lparr>DOWNLOAD_PATH := new_path\<rparr>;
               w0 = (if DOWNLOAD_PATH cfg2 \<in> set (dirs w) \<or> isfile w (DOWNLOAD_PATH cfg2) then w
                     else w\<lparr>dirs := dirs w @ [DOWNLOAD_PATH cfg2]\<rparr>)
           in case download_site cfg2 w0 (NASA_APOD_SITE cfg2) of
                (Inl e, w1) \<Rightarrow> (Inl e, w1)
              | (Inr site_contents, w1) \<Rightarrow>
                  if site_contents = Str ''error'' then (Inl SystemExit, w1)
                  else
                    (case get_image cfg2 w1 site_contents of
                       (Inl e, w2) \<Rightarrow> (Inl e, w2)
                     | (Inr filename, w2) \<Rightarrow>
                         (case (case filename of
                                  None \<Rightarrow> (Inr (), w2)
                                | Some f \<Rightarrow> resize_image cfg2 w2 f) of
                            (Inl e, w3) \<Rightarrow> (Inl e, w3)
                          | (Inr u, w3) \<Rightarrow>
                              (case create_desktop_background_scoll cfg2 w3 filename of
                                 (Inl e, w4) \<Rightarrow> (Inl e, w4)
                               | (Inr None, w4) \<Rightarrow> (Inl SystemExit, w4)
                               | (Inr (Some playlist), w4) \<Rightarrow>
                                   (case set_gnome_wallpaper cfg2 w4 playlist of
                                      (Inl e, w5) \<Rightarrow> (Inl e, w5)
                                    | (Inr status, w5) \<Rightarrow> (Inr (), w5))))))))"

section \<open>Settings and worlds used as concrete inputs\<close>

text \<open>
  \<open>settings\<close> are the defaults of the script with a relative download directory, the
  configured resolution and a seed target of one image. \<open>offline\<close> is a world in which
  every request is answered with status 404 and the download directory is empty.
\<close>

definition settings :: config where
  "settings =
     \<lparr>DOWNLOAD_PATH = ''backgrounds'',
      CUSTOM_FOLDER = ''nasa-apod-backgrounds'',
      RESOLUTION_TYPE = ''default'',
      RESOLUTION_X = 1024,
      RESOLUTION_Y = 768,
      NASA_APOD_SITE = ''http://apod.nasa.gov/apod/'',
      IMAGE_SCROLL = True,
      IMAGE_DURATION = 1200,
      SEED_IMAGES = 1,
      SHOW_DEBUG = False,
      SCREEN_UTILITY = ''xrandr'',
      SET_BG_CMD = ''gsettings set org.gnome.desktop.background picture-uri file://{}''\<rparr>"

definition offline :: world where
  "offline =
     \<lparr>web = (\<lambda>url. HttpErr 404),
      files = [],
      dirs = [''backgrounds''],
      today = 737934,
      randoms = [],
      screen_pipe = (\<lambda>utility pattern. []),
      glib_downloads = None,
      shell = (\<lambda>command. 0),
      log = []\<rparr>"

text \<open>The same settings with no seed image wanted, and with two.\<close>

definition unseeded :: config where
  "unseeded = settings\<lparr>SEED_IMAGES := 0\<rparr>"

definition seeding :: config where
  "seeding = settings\<lparr>SEED_IMAGES := 2\<rparr>"

definition picture_page :: string where
  "picture_page =
     ''<a href='' @ [quote] @ ''image/2105/m31.jpg'' @ [quote] @ ''>'' @ [newline] @
     ''<IMG SRC='' @ [quote] @ ''image/2105/m31_small.jpg'' @ [quote] @ ''></a>''"

definition video_page :: string where
  "video_page = ''<iframe src='' @ [quote] @ ''https://www.youtube.com/embed/x'' @ [quote] @ ''></iframe>''"

definition big_url :: string where
  "big_url = ''http://apod.nasa.gov/apod/image/2105/m31.jpg''"

definition small_url :: string where
  "small_url = ''http://apod.nasa.gov/apod/image/2105/m31_small.jpg''"

text \<open>
  A site that serves the picture page today and on every earlier day; the two pictures
  declare the given sizes.
\<close>

definition site :: "nat \<Rightarrow> nat \<Rightarrow> string \<Rightarrow> reply" where
  "site big_size small_size url =
     (if url = big_url then Reply (Picture ''JPEG'' 2000 1500) (Some big_size)
      else if url = small_url then Reply (Picture ''JPEG'' 200 150) (Some small_size)
      else if startswith url ''http://apod.nasa.gov/apod/'' then Reply (Page picture_page) None
      else HttpErr 404)"

text \<open>
  \<open>cached\<close>: the picture of the day is in the download directory already. \<open>error_pages\<close>:
  both picture links are answered with fewer than 500 bytes. \<open>snapshot\<close>: a directory with
  a picture that is larger than the screen and one that fits. \<open>gallery\<close>: a directory with
  three pictures. \<open>archive\<close>: yesterday's page is missing, the page of the day before shows
  a video, and every other page shows the picture.
\<close>

definition cached :: world where
  "cached = offline\<lparr>web := site 250000 9000,
                     files := [(''backgrounds/m31.png'', Stored (Picture ''PNG'' 1024 768))]\<rparr>"

definition error_pages :: world where
  "error_pages = offline\<lparr>web := site 312 120\<rparr>"

definition snapshot :: world where
  "snapshot = offline\<lparr>files := [(''backgrounds/m31.png'', Stored (Picture ''JPEG'' 2000 1500)),
                                (''backgrounds/m42.png'', Stored (Picture ''PNG'' 1024 768))]\<rparr>"

definition three_images :: "string list" where
  "three_images = [''backgrounds/a.png'', ''backgrounds/b.png'', ''backgrounds/c.png'']"

definition gallery :: world where
  "gallery = offline\<lparr>files := map (\<lambda>p. (p, Stored (Picture ''PNG'' 1024 768))) three_images,
                      randoms := [0, 0]\<rparr>"

definition archive :: world where
  "archive =
     offline\<lparr>web := (\<lambda>url.
                 if url = ''http://apod.nasa.gov/apod/ap210523.html'' then HttpErr 404
                 else if url = ''http://apod.nasa.gov/apod/ap210522.html''
                   then Reply (Page video_page) None
                 else site 250000 9000 url),
             files := [(''backgrounds/m42.png'', Stored (Picture ''PNG'' 1024 768))]\<rparr>"

text \<open>Two monitors as \<^verbatim>\<open>xrandr\<close> lists them, and two of equal area.\<close>

definition two_monitors :: string where
  "two_monitors =
     ''HDMI-1 connected 1920x1080+0+0 (normal left inverted right) 527mm x 296mm'' @ [newline] @
     ''VGA-1 connected 1024x768+1920+0 (normal left inverted right) 304mm x 228mm'' @ [newline]"

definition twin_monitors :: string where
  "twin_monitors =
     ''DP-1 connected 800x600+0+0'' @ [newline] @
     ''DP-2 connected 600x800+800+0'' @ [newline]"

definition largest_settings :: config where
  "largest_settings = settings\<lparr>RESOLUTION_TYPE := ''largest''\<rparr>"

definition screens :: "string \<Rightarrow> world" where
  "screens output = offline\<lparr>screen_pipe := (\<lambda>utility pattern. output)\<rparr>"

definition playlist_path :: string where
  "playlist_path = ''backgrounds/nasa_apod_desktop_backgrounds.xml''"

definition wallpaper_command :: string where
  "wallpaper_command =
     ''gsettings set org.gnome.desktop.background picture-uri file://backgrounds/nasa_apod_desktop_backgrounds.xml''"

section \<open>Properties\<close>

subsection \<open>\<^verbatim>\<open>human_readable_size\<close>\<close>

text \<open>
  C10. \<^verbatim>\<open>human_readable_size\<close> returns \<^verbatim>\<open>None\<close> exactly for the byte counts of at least
  \<open>1024^3\<close>: its loop tries the units bytes, KB and MB and falls through for anything
  larger; every smaller count gets a formatted string.
\<close>

theorem human_readable_size_None_iff:
  "(human_readable_size number_bytes = None) = (1024 ^ 3 \<le> number_bytes)"
  by (auto simp: human_readable_size_def)

subsection \<open>Facts about the concrete inputs\<close>

lemma search_picture_page:
  "search_image ''a href'' picture_page = Some ''image/2105/m31.jpg''"
  "search_image ''img src'' picture_page = Some ''image/2105/m31_small.jpg''"
  by code_simp+

lemma search_video_page:
  "search_image ''a href'' video_page = None"
  "search_image ''img src'' video_page = None"
  by code_simp+

lemma site_replies:
  "site b s big_url = Reply (Picture ''JPEG'' 2000 1500) (Some b)"
  "site b s small_url = Reply (Picture ''JPEG'' 200 150) (Some s)"
  "site b s ''http://apod.nasa.gov/apod/'' = Reply (Page picture_page) None"
  by (simp_all add: site_def big_url_def small_url_def)

lemma settings_fields:
  "DOWNLOAD_PATH settings = ''backgrounds''"
  "RESOLUTION_TYPE settings = ''default''"
  "RESOLUTION_X settings = 1024"
  "RESOLUTION_Y settings = 768"
  "NASA_APOD_SITE settings = ''http://apod.nasa.gov/apod/''"
  "IMAGE_SCROLL settings"
  "SEED_IMAGES settings = 1"
  "SET_BG_CMD settings = ''gsettings set org.gnome.desktop.background picture-uri file://{}''"
  by (simp_all add: settings_def)

lemma emit_fields:
  "web (emit e w) = web w" "files (emit e w) = files w" "today (emit e w) = today w"
  "dirs (emit e w) = dirs w" "randoms (emit e w) = randoms w" "log (emit e w) = log w @ [e]"
  by (simp_all add: emit_def)

text \<open>
  The main block up to its first request, when the resolution is the configured one, GLib
  is not there and the download directory exists.
\<close>

lemma main_default:
  assumes "RESOLUTION_TYPE cfg = ''default''" and "glib_downloads w = None"
    and "DOWNLOAD_PATH cfg \<in> set (dirs w)"
  shows "main cfg w =
     (case download_site cfg w (NASA_APOD_SITE cfg) of
        (Inl e, w1) \<Rightarrow> (Inl e, w1)
      | (Inr site_contents, w1) \<Rightarrow>
          if site_contents = Str ''error'' then (Inl SystemExit, w1)
          else
            (case get_image cfg w1 site_contents of
               (Inl e, w2) \<Rightarrow> (Inl e, w2)
             | (Inr filename, w2) \<Rightarrow>
                 (case (case filename of
                          None \<Rightarrow> (Inr (), w2)
                        | Some f \<Rightarrow> resize_image cfg w2 f) of
                    (Inl e, w3) \<Rightarrow> (Inl e, w3)
                  | (Inr u, w3) \<Rightarrow>
                      (case create_desktop_background_scoll cfg w3 filename of
                         (Inl e, w4) \<Rightarrow> (Inl e, w4)
                       | (Inr None, w4) \<Rightarrow> (Inl SystemExit, w4)
                       | (Inr (Some playlist), w4) \<Rightarrow>
                           (case set_gnome_wallpaper cfg w4 playlist of
                              (Inl e, w5) \<Rightarrow> (Inl e, w5)
                            | (Inr status, w5) \<Rightarrow> (Inr (), w5))))))"
proof -
  have fr: "find_resolution cfg w = Inr (RESOLUTION_X cfg, RESOLUTION_Y cfg)"
    using assms(1) by (simp add: find_resolution_def)
  have c1: "cfg\<lparr>RESOLUTION_X := RESOLUTION_X cfg, RESOLUTION_Y := RESOLUTION_Y cfg\<rparr> = cfg"
    by simp
  have sd: "set_download_folder cfg w = PyPath (DOWNLOAD_PATH cfg)"
    using assms(2) by (simp add: set_download_folder_def)
  have c2: "cfg\<lparr>DOWNLOAD_PATH := DOWNLOAD_PATH cfg\<rparr> = cfg"
    by simp
  show ?thesis
    unfolding main_def fr sum.case prod.case Let_def c1 sd pyobj.case c2
    using assms(3) by simp
qed

subsection \<open>\<^verbatim>\<open>get_image\<close>\<close>

text \<open>
  A text with the anchor pattern: the first call of \<^verbatim>\<open>get_image_info\<close> raises at line 459,
  and \<^verbatim>\<open>get_image\<close> passes the exception on.
\<close>

lemma get_image_match:
  assumes "as_str text = Inr t" and "search_image ''a href'' t = Some g"
  shows "get_image cfg w text = (Inl AttributeError, w)"
  using assms by (simp add: get_image_def get_image_info_def urlopen_def)

lemma save_path_TypeError: "save_path cfg filename = Inl TypeError"
  by (simp add: save_path_def with_stem_def)

lemma main_picture_page:
  assumes "web w = site b s" and "glib_downloads w = None" and "dirs w = [''backgrounds'']"
  shows "main settings w = (Inl AttributeError, emit (Fetched ''http://apod.nasa.gov/apod/'') w)"
proof -
  have d: "download_site settings w ''http://apod.nasa.gov/apod/''
      = (Inr (Bytes (Page picture_page)), emit (Fetched ''http://apod.nasa.gov/apod/'') w)"
    by (simp add: download_site_def assms(1) site_replies)
  have g: "get_image settings w' (Bytes (Page picture_page)) = (Inl AttributeError, w')" for w'
    by (rule get_image_match [of _ picture_page]) (simp_all add: search_picture_page)
  have pre: "DOWNLOAD_PATH settings \<in> set (dirs w)"
    by (simp add: assms(3) settings_fields)
  show ?thesis
    unfolding main_default [OF settings_fields(2) assms(2) pre]
    by (simp add: settings_fields d g)
qed

text \<open>
  C7. When the page matches neither the anchor pattern nor the image-tag pattern,
  \<^verbatim>\<open>get_image\<close> returns \<^verbatim>\<open>None\<close> as a normal result and leaves the world as it was: no
  request is sent and nothing is written.
\<close>

theorem get_image_no_pattern:
  assumes "as_str text = Inr t"
    and "search_image ''a href'' t = None"
    and "search_image ''img src'' t = None"
  shows "get_image cfg w text = (Inr None, w)"
  using assms by (simp add: get_image_def get_image_info_def)

theorem get_image_no_pattern_witness:
  "as_str (Bytes (Page video_page)) = Inr video_page
   \<and> search_image ''a href'' video_page = None
   \<and> search_image ''img src'' video_page = None
   \<and> get_image settings offline (Bytes (Page video_page)) = (Inr None, offline)"
  using get_image_no_pattern [of "Bytes (Page video_page)" video_page settings offline]
    search_video_page
  by simp

text \<open>
  C5 at a concrete input. The page of the day has both picture links, and the site declares
  312 bytes for the anchor's target and 120 bytes for the image tag's. \<^verbatim>\<open>get_image\<close> never
  learns these sizes: its first call of \<^verbatim>\<open>get_image_info\<close> raises \<^verbatim>\<open>AttributeError\<close> at
  \<^verbatim>\<open>urllib.urlopen\<close>. Nothing catches the exception, so the main block ends with it after
  its one request, and no file is written.
\<close>

theorem undersized_pages_raise:
  "web error_pages big_url = Reply (Picture ''JPEG'' 2000 1500) (Some 312)
   \<and> web error_pages small_url = Reply (Picture ''JPEG'' 200 150) (Some 120)
   \<and> get_image settings error_pages (Bytes (Page picture_page))
       = (Inl AttributeError, error_pages)
   \<and> fst (main settings error_pages) = Inl AttributeError
   \<and> files (snd (main settings error_pages)) = []
   \<and> log (snd (main settings error_pages)) = [Fetched ''http://apod.nasa.gov/apod/'']"
proof -
  have w: "web error_pages = site 312 120" "glib_downloads error_pages = None"
    "dirs error_pages = [''backgrounds'']" "files error_pages = []" "log error_pages = []"
    by (simp_all add: error_pages_def offline_def)
  have g: "get_image settings error_pages (Bytes (Page picture_page))
      = (Inl AttributeError, error_pages)"
    by (rule get_image_match [of _ picture_page]) (simp_all add: search_picture_page)
  show ?thesis
    unfolding main_picture_page [OF w(1,2,3)] g
    by (simp add: w site_replies emit_fields)
qed

text \<open>
  C6 at a concrete input. The picture of the day is in the download directory already, as
  \<^verbatim>\<open>backgrounds/m31.png\<close>. \<^verbatim>\<open>get_image\<close> does not come to look for it: it raises
  \<^verbatim>\<open>AttributeError\<close> at line 459 instead of returning the path of the file, and the run ends
  with that exception. The derivation of the local name (line 251) would raise as well.
\<close>

theorem existing_file_not_reused:
  "isfile cached ''backgrounds/m31.png''
   \<and> get_image settings cached (Bytes (Page picture_page)) = (Inl AttributeError, cached)
   \<and> save_path settings ''m31.jpg'' = Inl TypeError
   \<and> fst (main settings cached) = Inl AttributeError
   \<and> log (snd (main settings cached)) = [Fetched ''http://apod.nasa.gov/apod/'']"
proof -
  have w: "web cached = site 250000 9000" "glib_downloads cached = None"
    "dirs cached = [''backgrounds'']" "log cached = []"
    "isfile cached ''backgrounds/m31.png''"
    by (simp_all add: cached_def offline_def isfile_def)
  have g: "get_image settings cached (Bytes (Page picture_page)) = (Inl AttributeError, cached)"
    by (rule get_image_match [of _ picture_page]) (simp_all add: search_picture_page)
  show ?thesis
    unfolding main_picture_page [OF w(1,2,3)] g
    by (simp add: w emit_fields save_path_TypeError)
qed


subsection \<open>\<^verbatim>\<open>resize_image\<close>\<close>

lemma map_of_store: "map_of (store p c fs) q = (if q = p then Some c else map_of fs q)"
  by (induction fs) auto

text \<open>
  C8. Let the file hold a picture and the target size be positive. If the picture has the
  target size, \<^verbatim>\<open>resize_image\<close> returns and changes nothing. If it has another size,
  \<^verbatim>\<open>resize_image\<close> does not return: it raises \<^verbatim>\<open>TypeError\<close>, and the file that held the
  picture is left empty; every other file is as before.
\<close>

theorem resize_image_empties_file:
  assumes "map_of (files w) filename = Some (Stored (Picture f x y))"
    and "0 < RESOLUTION_X cfg" and "0 < RESOLUTION_Y cfg"
  shows "(int x = RESOLUTION_X cfg \<and> int y = RESOLUTION_Y cfg \<longrightarrow>
            resize_image cfg w filename = (Inr (), w))
         \<and> (\<not> (int x = RESOLUTION_X cfg \<and> int y = RESOLUTION_Y cfg) \<longrightarrow>
              (\<exists>w'. resize_image cfg w filename = (Inl TypeError, w')
                  \<and> map_of (files w') filename = Some (Stored (Page []))
                  \<and> (\<forall>p. p \<noteq> filename \<longrightarrow> map_of (files w') p = map_of (files w) p)))"
  using assms by (auto simp: resize_image_def write_file_def map_of_store)

theorem resize_image_empties_file_witness:
  "map_of (files snapshot) ''backgrounds/m31.png'' = Some (Stored (Picture ''JPEG'' 2000 1500))
   \<and> 0 < RESOLUTION_X settings \<and> 0 < RESOLUTION_Y settings
   \<and> (\<exists>w'. resize_image settings snapshot ''backgrounds/m31.png'' = (Inl TypeError, w')
          \<and> map_of (files w') ''backgrounds/m31.png'' = Some (Stored (Page []))
          \<and> map_of (files w') ''backgrounds/m42.png'' = Some (Stored (Picture ''PNG'' 1024 768)))
   \<and> resize_image settings snapshot ''backgrounds/m42.png'' = (Inr (), snapshot)"
proof -
  have h1: "map_of (files snapshot) ''backgrounds/m31.png''
      = Some (Stored (Picture ''JPEG'' 2000 1500))"
    by (simp add: snapshot_def offline_def)
  have other: "map_of (files snapshot) ''backgrounds/m42.png''
      = Some (Stored (Picture ''PNG'' 1024 768))"
    by (simp add: snapshot_def offline_def)
  have h2: "0 < RESOLUTION_X settings" and h3: "0 < RESOLUTION_Y settings"
    by (simp_all add: settings_def)
  have differs: "\<not> (int 2000 = RESOLUTION_X settings \<and> int 1500 = RESOLUTION_Y settings)"
    by (simp add: settings_def)
  have fits: "int 1024 = RESOLUTION_X settings \<and> int 768 = RESOLUTION_Y settings"
    by (simp add: settings_def)
  from resize_image_empties_file [OF h1 h2 h3] differs obtain w' where
    r: "resize_image settings snapshot ''backgrounds/m31.png'' = (Inl TypeError, w')"
    and m: "map_of (files w') ''backgrounds/m31.png'' = Some (Stored (Page []))"
    and frame: "\<forall>p. p \<noteq> ''backgrounds/m31.png'' \<longrightarrow>
        map_of (files w') p = map_of (files snapshot) p"
    by blast
  from frame have kept: "map_of (files w') ''backgrounds/m42.png''
      = Some (Stored (Picture ''PNG'' 1024 768))"
    by (simp add: other)
  have same: "resize_image settings snapshot ''backgrounds/m42.png'' = (Inr (), snapshot)"
    using resize_image_empties_file [OF other h2 h3] fits by blast
  show ?thesis
    using h1 h2 h3 r m kept same by blast
qed

subsection \<open>\<^verbatim>\<open>find_resolution\<close>\<close>

lemma finditer_monitors:
  "finditer_wxh '' connected '' False two_monitors = [(''1920'', ''1080''), (''1024'', ''768'')]"
  "finditer_wxh '' connected '' False twin_monitors = [(''800'', ''600''), (''600'', ''800'')]"
  by code_simp+

lemma int_digits_monitors:
  "int_digits ''1920'' = 1920" "int_digits ''1080'' = 1080"
  "int_digits ''1024'' = 1024" "int_digits ''768'' = 768"
  "int_digits ''800'' = 800" "int_digits ''600'' = 600"
  by code_simp+

lemma py_int_monitors:
  "py_int ''1024'' = Inr 1024" "py_int ''768'' = Inr 768"
  "py_int ''800'' = Inr 800" "py_int ''600'' = Inr 600"
  by code_simp+

text \<open>
  The loop keeps the last match whose area is positive: \<^verbatim>\<open>largest\<close> stays 0, so every such
  match passes the comparison and overwrites the one before.
\<close>

lemma largest_loop_keeps_last:
  "snd (largest_loop matches (0, res_x, res_y)) =
     (case filter (\<lambda>(g1, g2). int_digits g1 * int_digits g2 > 0) matches of
        [] \<Rightarrow> (res_x, res_y)
      | m # ms \<Rightarrow> (PStr (fst (last (m # ms))), PStr (snd (last (m # ms)))))"
proof (induction matches arbitrary: res_x res_y)
  case Nil
  show ?case by simp
next
  case (Cons m matches)
  obtain g1 g2 where m: "m = (g1, g2)"
    by (cases m)
  show ?case
    unfolding m by (simp add: Cons.IH split: list.splits)
qed

text \<open>
  C1 at two concrete outputs. With a 1920x1080 monitor listed before a 1024x768 one, the
  mode \<^verbatim>\<open>largest\<close> returns 1024x768, not the pair of greatest area; with two monitors of
  equal area it returns the second, not the first.
\<close>

theorem find_resolution_largest_returns_last:
  "find_resolution largest_settings (screens two_monitors) = Inr (1024, 768)
   \<and> find_resolution largest_settings (screens twin_monitors) = Inr (600, 800)"
  by (simp add: find_resolution_def largest_settings_def settings_def screens_def offline_def
      finditer_monitors int_digits_monitors py_int_monitors)

subsection \<open>The main block after an HTTP error\<close>

lemma str_nat_404: "str_nat 404 = ''404''"
  by (simp add: str_nat.simps digit_char_def)

lemma outage_facts:
  "search_image ''a href'' ''Error: 404'' = None"
  "joinpath ''backgrounds'' ''nasa_apod_desktop_backgrounds.xml'' = playlist_path"
  "format_cmd False ''gsettings set org.gnome.desktop.background picture-uri file://{}''
     playlist_path = Inr wallpaper_command"
  by code_simp+

lemma unseeded_fields:
  "DOWNLOAD_PATH unseeded = ''backgrounds''"
  "RESOLUTION_TYPE unseeded = ''default''"
  "NASA_APOD_SITE unseeded = ''http://apod.nasa.gov/apod/''"
  "IMAGE_SCROLL unseeded"
  "SEED_IMAGES unseeded = 0"
  "SET_BG_CMD unseeded = ''gsettings set org.gnome.desktop.background picture-uri file://{}''"
  by (simp_all add: unseeded_def settings_def)

lemma get_image_error_text: "get_image cfg w (Str ''Error: 404'') = (Inr None, w)"
  by (simp add: get_image_def get_image_info_def outage_facts)

text \<open>With an empty directory and no seed image wanted, the playlist is the bare root.\<close>

lemma create_empty:
  assumes "files w = []"
  shows "create_desktop_background_scoll unseeded w None
     = (Inr (Some playlist_path),
        write_file playlist_path (Tree (Element ''background'' None [])) w)"
  by (simp add: create_desktop_background_scoll_def unseeded_fields glob_png_def assms
      shuffle_def background_def outage_facts)

lemma main_outage:
  "main unseeded offline
     = (Inr (),
        emit (Ran wallpaper_command)
          (write_file playlist_path (Tree (Element ''background'' None []))
            (emit (Fetched ''http://apod.nasa.gov/apod/'') offline)))"
proof -
  have pre: "glib_downloads offline = None" "DOWNLOAD_PATH unseeded \<in> set (dirs offline)"
    by (simp_all add: offline_def unseeded_fields)
  have d: "download_site unseeded offline ''http://apod.nasa.gov/apod/''
      = (Inr (Str ''Error: 404''), emit (Fetched ''http://apod.nasa.gov/apod/'') offline)"
    by (simp add: download_site_def offline_def str_nat_404)
  have f: "files (emit (Fetched ''http://apod.nasa.gov/apod/'') offline) = []"
    by (simp add: emit_def offline_def)
  show ?thesis
    unfolding main_default [OF unseeded_fields(2) pre]
    by (simp add: unseeded_fields d get_image_error_text create_empty [OF f]
        set_gnome_wallpaper_def wallpaper_command_def playlist_path_def)
qed

text \<open>
  C2 at a concrete input. The site answers the request of the main block with status 404,
  the download directory is empty and no seed image is wanted. \<^verbatim>\<open>download_site\<close> returns
  the marker \<^verbatim>\<open>'Error: 404'\<close>, which is not the string \<^verbatim>\<open>'error'\<close> that line 484 compares
  it with. The run does not stop there: it goes on to its normal end, writes the playlist
  file (an empty one) and runs the wallpaper command.
\<close>

theorem http_error_goes_undetected:
  "fst (download_site unseeded offline ''http://apod.nasa.gov/apod/'') = Inr (Str ''Error: 404'')
   \<and> fst (main unseeded offline) = Inr ()
   \<and> map_of (files (snd (main unseeded offline))) playlist_path
       = Some (Tree (Element ''background'' None []))
   \<and> log (snd (main unseeded offline))
       = [Fetched ''http://apod.nasa.gov/apod/'', Ran wallpaper_command]"
proof -
  have d: "download_site unseeded offline ''http://apod.nasa.gov/apod/''
      = (Inr (Str ''Error: 404''), emit (Fetched ''http://apod.nasa.gov/apod/'') offline)"
    by (simp add: download_site_def offline_def str_nat_404)
  show ?thesis
    unfolding main_outage d
    by (simp add: emit_def write_file_def offline_def)
qed

subsection \<open>The playlist\<close>

lemma shuffle_loop_keeps:
  "length (fst (shuffle_loop i x w)) = length x \<and> files (snd (shuffle_loop i x w)) = files w"
  by (induction i arbitrary: x w) (auto simp: randbelow_def split: prod.splits list.splits)

lemma shuffle_keeps:
  "shuffle x w = (y, w') \<Longrightarrow> length y = length x \<and> files w' = files w"
  using shuffle_loop_keeps [of "length x - 1" x w] by (simp add: shuffle_def)

text \<open>The first pass of the loop raises where it assigns the path to the \<^verbatim>\<open>file\<close> element.\<close>

lemma background_raises: "images \<noteq> [] \<Longrightarrow> background cfg images = Inl TypeError"
proof -
  assume "images \<noteq> []"
  then have "[0..<length images] = 0 # [1..<length images]"
    by (simp add: upt_conv_Cons)
  then show ?thesis
    by (simp add: background_def entry_elements_def)
qed

text \<open>
  C3. Let the download directory hold K pictures, K at least 1 and not below the seed
  target, so that the image list of the Playlist Builder is the K paths of the directory
  scan. The builder emits no playlist: \<^verbatim>\<open>create_desktop_background_scoll\<close> raises
  \<^verbatim>\<open>TypeError\<close> (at line 406, in the first pass of its loop) and leaves every file as it
  was, so no playlist file is written.
\<close>

theorem playlist_builder_raises:
  assumes "IMAGE_SCROLL cfg"
    and "glob_png w (DOWNLOAD_PATH cfg) \<noteq> []"
    and "SEED_IMAGES cfg \<le> int (length (glob_png w (DOWNLOAD_PATH cfg)))"
  shows "fst (create_desktop_background_scoll cfg w filename) = Inl TypeError
         \<and> files (snd (create_desktop_background_scoll cfg w filename)) = files w"
proof -
  let ?images = "glob_png w (DOWNLOAD_PATH cfg)"
  obtain shuffled w2 where s: "shuffle ?images w = (shuffled, w2)"
    by (cases "shuffle ?images w")
  from shuffle_keeps [OF s] assms(2) have ne: "shuffled \<noteq> []" and f: "files w2 = files w"
    by auto
  have "create_desktop_background_scoll cfg w filename = (Inl TypeError, w2)"
    using assms(1,3) by (simp add: create_desktop_background_scoll_def s background_raises [OF ne])
  then show ?thesis
    using f by simp
qed

lemma glob_gallery: "glob_png gallery ''backgrounds'' = three_images"
proof -
  have "entry_name ''backgrounds'' ''backgrounds/a.png'' = Some ''a.png''"
    "entry_name ''backgrounds'' ''backgrounds/b.png'' = Some ''b.png''"
    "entry_name ''backgrounds'' ''backgrounds/c.png'' = Some ''c.png''"
    "endswith ''a.png'' ''.png''" "endswith ''b.png'' ''.png''" "endswith ''c.png'' ''.png''"
    by code_simp+
  then show ?thesis
    by (simp add: glob_png_def gallery_def offline_def three_images_def)
qed

theorem playlist_builder_raises_witness:
  "IMAGE_SCROLL settings
   \<and> glob_png gallery (DOWNLOAD_PATH settings) = three_images
   \<and> three_images \<noteq> []
   \<and> SEED_IMAGES settings \<le> int (length three_images)
   \<and> fst (create_desktop_background_scoll settings gallery None) = Inl TypeError
   \<and> files (snd (create_desktop_background_scoll settings gallery None)) = files gallery
   \<and> \<not> isfile (snd (create_desktop_background_scoll settings gallery None)) playlist_path"
proof -
  have g: "glob_png gallery (DOWNLOAD_PATH settings) = three_images"
    by (simp add: settings_fields glob_gallery)
  have ne: "three_images \<noteq> []" and seed: "SEED_IMAGES settings \<le> int (length three_images)"
    by (simp_all add: three_images_def settings_fields)
  have nofile: "map_of (files gallery) playlist_path = None"
    by (simp add: gallery_def offline_def three_images_def playlist_path_def)
  note raised = playlist_builder_raises [of settings gallery None, unfolded g,
      OF settings_fields(6) ne seed]
  show ?thesis
    using raised g ne seed nofile by (simp add: settings_fields isfile_def)
qed

subsection \<open>Seeding\<close>

text \<open>
  A pass of the seeding loop raises or goes on to the day before with the same count:
  \<^verbatim>\<open>get_image\<close> returns no path, so \<^verbatim>\<open>seed_images_left\<close> never goes down and the loop can
  only be left by an exception.
\<close>

lemma seed_loop_raises:
  assumes "0 < left"
  shows "\<exists>e w'. seed_loop cfg w d left images = (Inl e, w') \<and> files w' = files w"
proof (induction "today w - d" arbitrary: w d rule: less_induct)
  case less
  show ?case
  proof (cases "Suc d < today w")
    case False
    then have "seed_loop cfg w d left images = (Inl OverflowError, w)"
      using assms by (subst seed_loop.simps) simp
    then show ?thesis
      by simp
  next
    case True
    let ?w1 = "emit (Fetched (seed_page cfg (today w - Suc d))) w"
    obtain r where d1: "download_site cfg w (seed_page cfg (today w - Suc d)) = (r, ?w1)"
      using download_site_world
      by (cases "download_site cfg w (seed_page cfg (today w - Suc d))") blast
    have f1: "files ?w1 = files w"
      by (simp add: emit_def)
    have "today ?w1 - Suc d < today w - d"
      using True by (simp add: emit_def)
    from less.hyps [OF this] f1 have again:
      "\<exists>e w'. seed_loop cfg ?w1 (Suc d) left images = (Inl e, w') \<and> files w' = files w"
      by simp
    show ?thesis
    proof (cases r)
      case (Inl e)
      then have "seed_loop cfg w d left images = (Inl e, ?w1)"
        using assms True d1 by (subst seed_loop.simps) simp
      then show ?thesis
        using f1 by simp
    next
      case (Inr c)
      obtain g where g: "get_image cfg ?w1 c = (g, ?w1)" and no_path: "\<forall>p. g \<noteq> Inr (Some p)"
        using get_image_world by (cases "get_image cfg ?w1 c") blast
      show ?thesis
      proof (cases "c = Str ''error''")
        case True
        then have "seed_loop cfg w d left images = seed_loop cfg ?w1 (Suc d) left images"
          using assms \<open>Suc d < today w\<close> d1 Inr by (subst seed_loop.simps) simp
        then show ?thesis
          using again by simp
      next
        case False
        show ?thesis
        proof (cases g)
          case (Inl e)
          then have "seed_loop cfg w d left images = (Inl e, ?w1)"
            using assms \<open>Suc d < today w\<close> d1 Inr False g by (subst seed_loop.simps) simp
          then show ?thesis
            using f1 by simp
        next
          case (Inr found)
          then have "found = None"
            using no_path by (cases found) simp_all
          then have "seed_loop cfg w d left images = seed_loop cfg ?w1 (Suc d) left images"
            using assms \<open>Suc d < today w\<close> d1 \<open>r = Inr c\<close> False g Inr
            by (subst seed_loop.simps) simp
          then show ?thesis
            using again by simp
        qed
      qed
    qed
  qed
qed

text \<open>
  C4. When the download directory holds fewer pictures than the seed target, the Playlist
  Builder does not return: the seeding loop never adds a picture, so the count never
  reaches the target, and \<^verbatim>\<open>create_desktop_background_scoll\<close> is left by an exception.
  The files are as they were before.
\<close>

theorem seeding_never_completes:
  assumes "IMAGE_SCROLL cfg"
    and "int (length (glob_png w (DOWNLOAD_PATH cfg))) < SEED_IMAGES cfg"
  shows "\<exists>e w'. create_desktop_background_scoll cfg w filename = (Inl e, w')
           \<and> files w' = files w"
proof -
  have "0 < SEED_IMAGES cfg"
    using assms(2) by simp
  from seed_loop_raises [OF this, of cfg w 0 "glob_png w (DOWNLOAD_PATH cfg)"]
  show ?thesis
    using assms by (auto simp: create_desktop_background_scoll_def)
qed

text \<open>
  The loop at the world \<open>archive\<close>, on 24 May 2021: the page of 23 May is missing and the
  page of 22 May shows a video, so both days are passed over; the page of 21 May shows a
  picture, and the loop is left by the \<^verbatim>\<open>AttributeError\<close> of line 459.
\<close>

lemma seed_pages:
  "seed_page seeding 737933 = ''http://apod.nasa.gov/apod/ap210523.html''"
  "seed_page seeding 737932 = ''http://apod.nasa.gov/apod/ap210522.html''"
  "seed_page seeding 737931 = ''http://apod.nasa.gov/apod/ap210521.html''"
proof -
  have c: "civil 737933 = (2021, 5, 23)" "civil 737932 = (2021, 5, 22)"
    "civil 737931 = (2021, 5, 21)"
    by (simp_all add: civil_def Let_def)
  have t: "two_digits 2021 = ''21''" "two_digits 5 = ''05''" "two_digits 23 = ''23''"
    "two_digits 22 = ''22''" "two_digits 21 = ''21''"
    by (simp_all add: two_digits_def str_nat.simps digit_char_def)
  show "seed_page seeding 737933 = ''http://apod.nasa.gov/apod/ap210523.html''"
    "seed_page seeding 737932 = ''http://apod.nasa.gov/apod/ap210522.html''"
    "seed_page seeding 737931 = ''http://apod.nasa.gov/apod/ap210521.html''"
    by (simp_all add: seed_page_def strftime_ymd_def c t seeding_def settings_def)
qed

lemma seed_loop_passes:
  assumes "0 < left" and "Suc d < today w"
    and "download_site cfg w (seed_page cfg (today w - Suc d)) = (Inr c, w1)"
    and "c \<noteq> Str ''error''"
    and "get_image cfg w1 c = (Inr None, w1)"
  shows "seed_loop cfg w d left images = seed_loop cfg w1 (Suc d) left images"
  using assms by (subst seed_loop.simps) simp

lemma seed_loop_left:
  assumes "0 < left" and "Suc d < today w"
    and "download_site cfg w (seed_page cfg (today w - Suc d)) = (Inr c, w1)"
    and "c \<noteq> Str ''error''"
    and "get_image cfg w1 c = (Inl e, w1)"
  shows "seed_loop cfg w d left images = (Inl e, w1)"
  using assms by (subst seed_loop.simps) simp

lemma archive_replies:
  "web archive ''http://apod.nasa.gov/apod/ap210523.html'' = HttpErr 404"
  "web archive ''http://apod.nasa.gov/apod/ap210522.html'' = Reply (Page video_page) None"
  "web archive ''http://apod.nasa.gov/apod/ap210521.html'' = Reply (Page picture_page) None"
  by (simp_all add: archive_def offline_def site_def big_url_def small_url_def)

lemma seed_loop_archive:
  "seed_loop seeding archive 0 2 images
     = (Inl AttributeError,
        emit (Fetched ''http://apod.nasa.gov/apod/ap210521.html'')
          (emit (Fetched ''http://apod.nasa.gov/apod/ap210522.html'')
            (emit (Fetched ''http://apod.nasa.gov/apod/ap210523.html'') archive)))"
proof -
  let ?w1 = "emit (Fetched ''http://apod.nasa.gov/apod/ap210523.html'') archive"
  let ?w2 = "emit (Fetched ''http://apod.nasa.gov/apod/ap210522.html'') ?w1"
  let ?w3 = "emit (Fetched ''http://apod.nasa.gov/apod/ap210521.html'') ?w2"
  have day: "today archive = 737934"
    by (simp add: archive_def offline_def)
  have d1: "download_site seeding archive (seed_page seeding (today archive - Suc 0))
      = (Inr (Str ''Error: 404''), ?w1)"
    by (simp add: day seed_pages download_site_def archive_replies str_nat_404)
  have d2: "download_site seeding ?w1 (seed_page seeding (today ?w1 - Suc (Suc 0)))
      = (Inr (Bytes (Page video_page)), ?w2)"
    by (simp add: day emit_fields seed_pages download_site_def archive_replies)
  have d3: "download_site seeding ?w2 (seed_page seeding (today ?w2 - Suc (Suc (Suc 0))))
      = (Inr (Bytes (Page picture_page)), ?w3)"
    by (simp add: day emit_fields seed_pages download_site_def archive_replies)
  have g2: "get_image seeding ?w2 (Bytes (Page video_page)) = (Inr None, ?w2)"
    by (simp add: get_image_def get_image_info_def search_video_page)
  have g3: "get_image seeding ?w3 (Bytes (Page picture_page)) = (Inl AttributeError, ?w3)"
    by (rule get_image_match [of _ picture_page]) (simp_all add: search_picture_page)
  have "seed_loop seeding archive 0 2 images = seed_loop seeding ?w1 (Suc 0) 2 images"
    by (rule seed_loop_passes [OF _ _ d1 _ get_image_error_text]) (simp_all add: day)
  also have "\<dots> = seed_loop seeding ?w2 (Suc (Suc 0)) 2 images"
    by (rule seed_loop_passes [OF _ _ d2 _ g2]) (simp_all add: day emit_fields)
  also have "\<dots> = (Inl AttributeError, ?w3)"
    by (rule seed_loop_left [OF _ _ d3 _ g3]) (simp_all add: day emit_fields)
  finally show ?thesis .
qed

theorem seeding_never_completes_witness:
  "IMAGE_SCROLL seeding
   \<and> int (length (glob_png archive (DOWNLOAD_PATH seeding))) < SEED_IMAGES seeding
   \<and> (\<exists>e w'. create_desktop_background_scoll seeding archive None = (Inl e, w')
          \<and> files w' = files archive)
   \<and> fst (create_desktop_background_scoll seeding archive None) = Inl AttributeError
   \<and> log (snd (create_desktop_background_scoll seeding archive None))
       = [Fetched ''http://apod.nasa.gov/apod/ap210523.html'',
          Fetched ''http://apod.nasa.gov/apod/ap210522.html'',
          Fetched ''http://apod.nasa.gov/apod/ap210521.html'']"
proof -
  have fields: "IMAGE_SCROLL seeding" "DOWNLOAD_PATH seeding = ''backgrounds''"
    "SEED_IMAGES seeding = 2"
    by (simp_all add: seeding_def settings_def)
  have "entry_name ''backgrounds'' ''backgrounds/m42.png'' = Some ''m42.png''"
    "endswith ''m42.png'' ''.png''"
    by code_simp+
  then have g: "glob_png archive ''backgrounds'' = [''backgrounds/m42.png'']"
    by (simp add: glob_png_def archive_def offline_def)
  have few: "int (length (glob_png archive (DOWNLOAD_PATH seeding))) < SEED_IMAGES seeding"
    by (simp add: fields g)
  note raised = seeding_never_completes [OF fields(1) few, of None]
  have run: "create_desktop_background_scoll seeding archive None
      = (Inl AttributeError,
         emit (Fetched ''http://apod.nasa.gov/apod/ap210521.html'')
           (emit (Fetched ''http://apod.nasa.gov/apod/ap210522.html'')
             (emit (Fetched ''http://apod.nasa.gov/apod/ap210523.html'') archive)))"
    by (simp add: create_desktop_background_scoll_def fields g seed_loop_archive)
  have "log archive = []"
    by (simp add: archive_def offline_def)
  then have trace: "log (snd (create_desktop_background_scoll seeding archive None))
       = [Fetched ''http://apod.nasa.gov/apod/ap210523.html'',
          Fetched ''http://apod.nasa.gov/apod/ap210522.html'',
          Fetched ''http://apod.nasa.gov/apod/ap210521.html'']"
    unfolding run by (simp add: emit_fields)
  have "fst (create_desktop_background_scoll seeding archive None) = Inl AttributeError"
    unfolding run by simp
  then show ?thesis
    using fields(1) few raised trace by blast
qed

end
